theory Spec2Isabelle
  imports Main "HOL-Library.AList"
begin

section \<open>JavaScript values, objects and the React element constructors\<close>

text \<open>
  Both components are written in TypeScript over React. Their inputs and outputs are
  JavaScript values: primitives, functions, arrays, plain objects and React elements.
  An object is an association list in insertion order; reading a property returns the
  first binding of the key, writing one replaces that binding in place or appends a new one.
  Numbers are integers here: the only arithmetic of the two components is the indentation
  \<open>16 + (depth + 1) * 35\<close> on a row depth.
  A function value is opaque and carries a name only.
\<close>

datatype etype = Tag string | Component string | Fragment

datatype jsval =
    VUndefined
  | VNull
  | VBool bool
  | VNum int
  | VStr string
  | VFun string
  | VArr "jsval list"
  | VObj "(string \<times> jsval) list"
  | VElem etype "(string \<times> jsval) list"

type_synonym obj = "(string \<times> jsval) list"

text \<open>\<open>!!v\<close>: the falsy values are \<open>undefined\<close>, \<open>null\<close>, \<open>false\<close>, \<open>0\<close> and the empty
  string; every function, array (the empty one too), object and element is truthy.\<close>

fun truthy :: "jsval \<Rightarrow> bool" where
  "truthy VUndefined = False"
| "truthy VNull = False"
| "truthy (VBool b) = b"
| "truthy (VNum n) = (n \<noteq> 0)"
| "truthy (VStr s) = (s \<noteq> [])"
| "truthy (VFun f) = True"
| "truthy (VArr xs) = True"
| "truthy (VObj kvs) = True"
| "truthy (VElem t ps) = True"

text \<open>\<open>a && b\<close> is \<open>a\<close> itself when \<open>a\<close> is falsy, and \<open>b\<close> otherwise.\<close>

definition js_and :: "jsval \<Rightarrow> jsval \<Rightarrow> jsval" where
  "js_and a b = (if truthy a then b else a)"

text \<open>\<open>o.k\<close>: a key that is absent reads as \<open>undefined\<close>.\<close>

definition getp :: "obj \<Rightarrow> string \<Rightarrow> jsval" where
  "getp ob k = (case map_of ob k of None \<Rightarrow> VUndefined | Some v \<Rightarrow> v)"

text \<open>\<open>{...a, ...b}\<close>: the bindings of \<open>b\<close> are written into \<open>a\<close> one after the other.\<close>

definition spread :: "obj \<Rightarrow> obj \<Rightarrow> obj" where
  "spread a b = AList.merge a b"

text \<open>\<open>const {k1, ..., kn, ...rest} = o\<close>: \<open>rest\<close> holds the bindings of every other key.\<close>

definition rest_without :: "string list \<Rightarrow> obj \<Rightarrow> obj" where
  "rest_without ks ob = filter (\<lambda>kv. fst kv \<notin> set ks) ob"

subsection \<open>React\<close>

text \<open>\<open>React.isValidElement\<close> holds of the objects \<open>React.createElement\<close> (JSX) makes.\<close>

fun isValidElement :: "jsval \<Rightarrow> bool" where
  "isValidElement (VElem t ps) = True"
| "isValidElement v = False"

text \<open>\<open>React.cloneElement(el, config)\<close>: the same element type, the element's props with
  those of \<open>config\<close> written over them. The components call it on elements only.\<close>

fun cloneElement :: "jsval \<Rightarrow> obj \<Rightarrow> jsval" where
  "cloneElement (VElem t ps) config = VElem t (spread ps config)"
| "cloneElement v config = v"

text \<open>\<open><T {...props} />\<close> and \<open><T k={v}>child</T>\<close>: an element of type \<open>T\<close> with these props;
  a single child is the \<open>children\<close> prop itself, several children are an array.\<close>

definition jsx :: "etype \<Rightarrow> obj \<Rightarrow> jsval" where
  "jsx t ps = VElem t ps"

fun jsx_children :: "jsval list \<Rightarrow> obj" where
  "jsx_children [] = []"
| "jsx_children [c] = [(''children'', c)]"
| "jsx_children cs = [(''children'', VArr cs)]"

subsection \<open>The \<open>classnames\<close> function\<close>

text \<open>Decimal text of a number, as \<open>Array.prototype.join\<close> prints it.\<close>

definition digit_char :: "nat \<Rightarrow> char" where
  "digit_char d = char_of (48 + d)"

function show_nat :: "nat \<Rightarrow> string" where
  "show_nat n = (if n < 10 then [digit_char n] else show_nat (n div 10) @ [digit_char (n mod 10)])"
  by pat_completeness auto
termination
  by (relation "measure id") auto

definition show_int :: "int \<Rightarrow> string" where
  "show_int i = (if i < 0 then CHR ''-'' # show_nat (nat (- i)) else show_nat (nat i))"

fun join_space :: "string list \<Rightarrow> string" where
  "join_space [] = []"
| "join_space [c] = c"
| "join_space (c # cs) = c @ '' '' @ join_space cs"

text \<open>
  \<open>cx(arg, ...)\<close> of the package \<open>classnames\<close>: a falsy argument is skipped, a string or a number
  is a class, an array is the classes of its items, an object gives the keys whose values are
  truthy, and the classes are joined by single spaces. A function is none of these and is
  skipped. A React element as a class argument is outside what the components' types admit
  (\<open>className\<close> is a string or absent) and adds no class here.
\<close>

fun cx_classes :: "jsval \<Rightarrow> string list" where
  "cx_classes (VStr s) = (if s = [] then [] else [s])"
| "cx_classes (VNum n) = (if n = 0 then [] else [show_int n])"
| "cx_classes (VArr xs) =
     (let inner = join_space (concat (map cx_classes xs)) in if inner = [] then [] else [inner])"
| "cx_classes (VObj kvs) = map fst (filter (\<lambda>kv. truthy (snd kv)) kvs)"
| "cx_classes v = []"

definition cx :: "jsval list \<Rightarrow> string" where
  "cx args = join_space (concat (map cx_classes args))"

section \<open>HeaderButton (src/core/Header/HeaderButton.tsx)\<close>

text \<open>The type guards of lines 37-47: both test truthiness of the fields.\<close>

definition isSplitButton :: "obj \<Rightarrow> bool" where
  "isSplitButton props \<longleftrightarrow> truthy (getp props ''menuItems'') \<and> truthy (getp props ''onClick'')"

definition isDropdownButton :: "obj \<Rightarrow> bool" where
  "isDropdownButton props \<longleftrightarrow> truthy (getp props ''menuItems'')"

text \<open>Line 69: \<open>isActive = false\<close>, the default of the destructuring, replaces \<open>undefined\<close> only.\<close>

definition isActive_of :: "obj \<Rightarrow> jsval" where
  "isActive_of props =
     (if getp props ''isActive'' = VUndefined then VBool False else getp props ''isActive'')"

text \<open>Lines 66-74: everything but the six named fields is \<open>rest\<close>.\<close>

definition rest_of :: "obj \<Rightarrow> obj" where
  "rest_of props =
     rest_without [''name'', ''description'', ''isActive'', ''className'', ''startIcon'',
       ''menuItems''] props"

text \<open>Lines 79-86: the leading icon of the assembled props.\<close>

definition startIcon_of :: "obj \<Rightarrow> jsval" where
  "startIcon_of props =
     (let startIcon = getp props ''startIcon'' in
      if isValidElement startIcon
      then cloneElement startIcon
             [(''className'',
               VStr (cx [VStr ''iui-header-button-icon'',
                         (case startIcon of VElem t ps \<Rightarrow> getp ps ''className''
                          | _ \<Rightarrow> VUndefined)]))]
      else VUndefined)"

text \<open>Lines 88-95: the composed class name.\<close>

definition className_of :: "obj \<Rightarrow> jsval" where
  "className_of props =
     VStr (cx [VObj [(''iui-header-button'', VBool (\<not> isSplitButton props)),
                     (''iui-header-split-button'', VBool (isSplitButton props)),
                     (''iui-active'', isActive_of props)],
               getp props ''className''])"

text \<open>Lines 97-102: the children, a fragment of the label and the optional description.\<close>

definition children_of :: "obj \<Rightarrow> jsval" where
  "children_of props =
     jsx Fragment
       (jsx_children
          [jsx (Tag ''div'') (jsx_children [getp props ''name'']),
           js_and (getp props ''description'')
             (jsx (Tag ''div'')
                ((''className'', VStr ''iui-description'')
                 # jsx_children [getp props ''description'']))])"

text \<open>
  Lines 78-106: the object literal \<open>buttonProps\<close>. The hook \<open>useTheme()\<close> of line 76 returns
  nothing the component reads. \<open>!!menuItems && { menuItems }\<close> is \<open>false\<close> or a one-field object,
  and spreading \<open>false\<close> adds nothing.
\<close>

definition buttonProps :: "jsval \<Rightarrow> obj \<Rightarrow> obj" where
  "buttonProps ref props =
     spread
       (spread
          [(''startIcon'', startIcon_of props),
           (''styleType'', VStr ''borderless''),
           (''className'', className_of props),
           (''aria-current'',
              if truthy (isActive_of props) then VStr ''location'' else VUndefined),
           (''children'', children_of props),
           (''ref'', ref)]
          (if truthy (getp props ''menuItems'')
           then [(''menuItems'', getp props ''menuItems'')] else []))
       (rest_of props)"

text \<open>Lines 108-114: the dispatch on the assembled props.\<close>

definition HeaderButton :: "jsval \<Rightarrow> obj \<Rightarrow> jsval" where
  "HeaderButton ref props =
     (let bp = buttonProps ref props in
      if isSplitButton bp then jsx (Component ''SplitButton'') bp
      else if isDropdownButton bp then jsx (Component ''DropdownButton'') bp
      else jsx (Component ''Button'') bp)"

section \<open>TableCell (src/core/Table/TableCell.tsx)\<close>

subsection \<open>The table engine's objects\<close>

text \<open>
  The fields of \<open>Cell\<close>, \<open>Row\<close>, \<open>ColumnInstance\<close> and \<open>TableInstance\<close> that the component reads.
  The type \<open>'f\<close> is that of a column's custom renderer, a function the component calls.
  A row lists its cells and each cell names its row; a value of the datatype unfolds that
  cycle finitely, and of the cells of \<open>cell.row.cells\<close> the component reads \<open>c.column.id\<close> only.
\<close>

record 'f column =
  column_id :: string
  cellClassName :: jsval
  cellRenderer :: "'f option"

datatype 'f cell = Cell (column: "'f column") (row: "'f row") (cell_value: jsval)
  and 'f row = Row (cells: "'f cell list") (depth: int) (canExpand: bool)

record table_state =
  isTableResizing :: jsval

record tableInstance =
  state :: table_state

record 'f TableCellProps =
  cell :: "'f cell"
  cellIndex :: int
  isDisabled :: bool
  tableHasSubRows :: bool
  tableInstance :: tableInstance
  expanderCell :: jsval

text \<open>Lines 57-60: \<open>cellProps\<close> is the table instance with the four fields of the cell
  written over it.\<close>

record 'f cellProps =
  cp_instance :: tableInstance
  cp_cell :: "'f cell"
  cp_row :: "'f row"
  cp_value :: jsval
  cp_column :: "'f column"

text \<open>
  What the component returns: fragments, the two elements it creates (\<open>SubRowExpander\<close> with
  its four props, \<open>DefaultCell\<close> with the renderer props spread into it) and the values other
  code hands back to it (\<open>cell.render('Cell')\<close>, a custom renderer's result, the \<open>false\<close> a
  short-circuited \<open>&&\<close> leaves).
\<close>

datatype 'f node =
    FragmentOf "'f node list"
  | Value jsval
  | SubRowExpander "'f cell" bool "'f cellProps" jsval
  | DefaultCell "'f cellRendererProps"
and 'f cellRendererProps =
    CellRendererProps (cellElementProps: obj) (cellProps: "'f cellProps") (children: "'f node")

text \<open>
  What the component imports or calls and is defined elsewhere, taken as parameters: the
  constant \<open>SELECTION_CELL_ID\<close> of \<open>./hooks\<close>, \<open>getCellStyle\<close> of \<open>./utils\<close>, the table engine's
  methods \<open>cell.getCellProps\<close> and \<open>cell.render('Cell')\<close>, and the call of a renderer function.
\<close>

record 'f table_env =
  SELECTION_CELL_ID :: string
  getCellStyle :: "'f column \<Rightarrow> bool \<Rightarrow> obj option"
  getCellProps :: "'f cell \<Rightarrow> obj \<Rightarrow> obj"
  render_Cell :: "'f cell \<Rightarrow> jsval"
  call_cellRenderer :: "'f \<Rightarrow> 'f cellRendererProps \<Rightarrow> jsval"

subsection \<open>\<open>Array.prototype.findIndex\<close>\<close>

text \<open>The index of the first item the predicate holds of, counting from zero; \<open>-1\<close> when
  there is none.\<close>

fun findIndex_from :: "int \<Rightarrow> ('a \<Rightarrow> bool) \<Rightarrow> 'a list \<Rightarrow> int" where
  "findIndex_from k P [] = - 1"
| "findIndex_from k P (x # xs) = (if P x then k else findIndex_from (k + 1) P xs)"

definition findIndex :: "('a \<Rightarrow> bool) \<Rightarrow> 'a list \<Rightarrow> int" where
  "findIndex P xs = findIndex_from 0 P xs"

subsection \<open>The component\<close>

text \<open>Lines 34-36.\<close>

definition hasSubRowExpander :: "'f table_env \<Rightarrow> 'f TableCellProps \<Rightarrow> bool" where
  "hasSubRowExpander env props \<longleftrightarrow>
     cellIndex props =
       findIndex (\<lambda>c. column_id (column c) \<noteq> SELECTION_CELL_ID env) (cells (row (cell props)))"

text \<open>Lines 38-47: \<open>undefined\<close> or an object with the one field \<open>paddingLeft\<close>.\<close>

definition getSubRowStyle :: "'f table_env \<Rightarrow> 'f TableCellProps \<Rightarrow> obj option" where
  "getSubRowStyle env props =
     (if \<not> tableHasSubRows props \<or> \<not> hasSubRowExpander env props then None
      else Some [(''paddingLeft'',
                  VNum (16 + (depth (row (cell props))
                              + (if canExpand (row (cell props)) then 0 else 1)) * 35))])"

text \<open>Spreading \<open>undefined\<close> adds nothing.\<close>

fun spread_opt :: "obj \<Rightarrow> obj option \<Rightarrow> obj" where
  "spread_opt a None = a"
| "spread_opt a (Some b) = spread a b"

text \<open>Lines 51-54: the \<open>style\<close> handed to \<open>cell.getCellProps\<close>.\<close>

definition cellStyle :: "'f table_env \<Rightarrow> 'f TableCellProps \<Rightarrow> obj" where
  "cellStyle env props =
     spread_opt
       (spread_opt []
          (getCellStyle env (column (cell props))
             (truthy (isTableResizing (state (tableInstance props))))))
       (getSubRowStyle env props)"

text \<open>Lines 49-55.\<close>

definition cellElementProps_of :: "'f table_env \<Rightarrow> 'f TableCellProps \<Rightarrow> obj" where
  "cellElementProps_of env props =
     getCellProps env (cell props)
       [(''className'', VStr (cx [VStr ''iui-cell'', cellClassName (column (cell props))])),
        (''style'', VObj (cellStyle env props))]"

text \<open>Lines 57-60.\<close>

definition cellProps_of :: "'f TableCellProps \<Rightarrow> 'f cellProps" where
  "cellProps_of props =
     \<lparr>cp_instance = tableInstance props, cp_cell = cell props, cp_row = row (cell props),
      cp_value = cell_value (cell props), cp_column = column (cell props)\<rparr>"

text \<open>Lines 62-74: the operands of the \<open>&&\<close> chain are booleans, so it is the expander
  element or \<open>false\<close>.\<close>

definition cellContent :: "'f table_env \<Rightarrow> 'f TableCellProps \<Rightarrow> 'f node" where
  "cellContent env props =
     FragmentOf
       [if tableHasSubRows props \<and> hasSubRowExpander env props \<and> canExpand (row (cell props))
        then SubRowExpander (cell props) (isDisabled props) (cellProps_of props)
               (expanderCell props)
        else Value (VBool False),
        Value (render_Cell env (cell props))]"

text \<open>Lines 76-80.\<close>

definition cellRendererProps_of :: "'f table_env \<Rightarrow> 'f TableCellProps \<Rightarrow> 'f cellRendererProps"
  where
  "cellRendererProps_of env props =
     CellRendererProps (cellElementProps_of env props) (cellProps_of props)
       (cellContent env props)"

text \<open>Lines 82-90.\<close>

definition TableCell :: "'f table_env \<Rightarrow> 'f TableCellProps \<Rightarrow> 'f node" where
  "TableCell env props =
     FragmentOf
       [case cellRenderer (column (cell props)) of
          Some f \<Rightarrow> Value (call_cellRenderer env f (cellRendererProps_of env props))
        | None \<Rightarrow> DefaultCell (cellRendererProps_of env props)]"

subsection \<open>The component over a store\<close>

text \<open>
  The props \<open>cell\<close> and \<open>tableInstance\<close> are references to objects of the table engine, and a
  function the component calls may write to them. Here the two objects live in a store, each
  call takes the store and returns it, and every field is read from the store as it is at
  that line: \<open>hasSubRowExpander\<close> and the class name before \<open>getCellStyle\<close> runs, the depth
  inside \<open>getSubRowStyle()\<close> after it, \<open>cellProps\<close> after \<open>cell.getCellProps\<close>, the renderer of
  the column after \<open>cell.render('Cell')\<close>. The component itself assigns to nothing.
\<close>

record 'f store =
  cell_obj :: "'f cell"
  table_obj :: tableInstance

record 'f table_env_st =
  SELECTION_CELL_ID_st :: string
  getCellStyle_st :: "'f column \<Rightarrow> bool \<Rightarrow> 'f store \<Rightarrow> obj option \<times> 'f store"
  getCellProps_st :: "obj \<Rightarrow> 'f store \<Rightarrow> obj \<times> 'f store"
  render_Cell_st :: "'f store \<Rightarrow> jsval \<times> 'f store"
  call_cellRenderer_st :: "'f \<Rightarrow> 'f cellRendererProps \<Rightarrow> 'f store \<Rightarrow> jsval \<times> 'f store"

definition store_of :: "'f TableCellProps \<Rightarrow> 'f store" where
  "store_of props = \<lparr>cell_obj = cell props, table_obj = tableInstance props\<rparr>"

definition TableCell_st ::
  "'f table_env_st \<Rightarrow> 'f TableCellProps \<Rightarrow> 'f store \<Rightarrow> 'f node \<times> 'f store" where
  "TableCell_st env props s0 =
     (let anchor =
            (cellIndex props =
               findIndex (\<lambda>c. column_id (column c) \<noteq> SELECTION_CELL_ID_st env)
                 (cells (row (cell_obj s0))));
          className = VStr (cx [VStr ''iui-cell'', cellClassName (column (cell_obj s0))]);
          (base, s1) =
            getCellStyle_st env (column (cell_obj s0))
              (truthy (isTableResizing (state (table_obj s0)))) s0;
          subRowStyle =
            (if \<not> tableHasSubRows props \<or> \<not> anchor then None
             else Some [(''paddingLeft'',
                         VNum (16 + (depth (row (cell_obj s1))
                                     + (if canExpand (row (cell_obj s1)) then 0 else 1)) * 35))]);
          (elementProps, s2) =
            getCellProps_st env
              [(''className'', className),
               (''style'', VObj (spread_opt (spread_opt [] base) subRowStyle))] s1;
          cprops =
            \<lparr>cp_instance = table_obj s2, cp_cell = cell_obj s2, cp_row = row (cell_obj s2),
             cp_value = cell_value (cell_obj s2), cp_column = column (cell_obj s2)\<rparr>;
          expander =
            (if tableHasSubRows props \<and> anchor \<and> canExpand (row (cell_obj s2))
             then SubRowExpander (cell_obj s2) (isDisabled props) cprops (expanderCell props)
             else Value (VBool False));
          (rendered, s3) = render_Cell_st env s2;
          rprops = CellRendererProps elementProps cprops (FragmentOf [expander, Value rendered])
      in case cellRenderer (column (cell_obj s3)) of
           Some f \<Rightarrow>
             (let (result, s4) = call_cellRenderer_st env f rprops s3
              in (FragmentOf [Value result], s4))
         | None \<Rightarrow> (FragmentOf [DefaultCell rprops], s3))"

text \<open>The functions of a pure environment, as functions over the store that leave it as
  it is.\<close>

definition lift_env :: "'f table_env \<Rightarrow> 'f table_env_st" where
  "lift_env env =
     \<lparr>SELECTION_CELL_ID_st = SELECTION_CELL_ID env,
      getCellStyle_st = (\<lambda>c r s. (getCellStyle env c r, s)),
      getCellProps_st = (\<lambda>ob s. (getCellProps env (cell_obj s) ob, s)),
      render_Cell_st = (\<lambda>s. (render_Cell env (cell_obj s), s)),
      call_cellRenderer_st = (\<lambda>f rp s. (call_cellRenderer env f rp, s))\<rparr>"

subsection \<open>A sample table\<close>

text \<open>
  A concrete environment and concrete props, for evaluating the component: a selection column,
  a \<open>name\<close> column with or without a renderer of its own, rows built from a list of columns,
  and the props of the cell at a given position.
\<close>

definition sample_env :: "string table_env" where
  "sample_env =
     \<lparr>SELECTION_CELL_ID = ''iui-table-checkbox-selector'',
      getCellStyle = (\<lambda>c resizing. Some [(''flex'', VStr ''1 1 145px'')]),
      getCellProps = (\<lambda>c ob. (''role'', VStr ''cell'') # ob),
      render_Cell = cell_value,
      call_cellRenderer = (\<lambda>f rp. VElem (Tag f) (cellElementProps rp))\<rparr>"

definition selection_column :: "string column" where
  "selection_column =
     \<lparr>column_id = ''iui-table-checkbox-selector'', cellClassName = VUndefined,
      cellRenderer = None\<rparr>"

definition name_column :: "string option \<Rightarrow> string column" where
  "name_column r = \<lparr>column_id = ''name'', cellClassName = VUndefined, cellRenderer = r\<rparr>"

definition sample_row :: "string column list \<Rightarrow> int \<Rightarrow> bool \<Rightarrow> string row" where
  "sample_row cols d e = Row (map (\<lambda>c. Cell c (Row [] d e) VNull) cols) d e"

definition sample_props ::
  "string column list \<Rightarrow> nat \<Rightarrow> int \<Rightarrow> bool \<Rightarrow> bool \<Rightarrow> string TableCellProps" where
  "sample_props cols i d e sub =
     \<lparr>cell = Cell (cols ! i) (sample_row cols d e) (VStr ''Alice''), cellIndex = int i,
      isDisabled = False, tableHasSubRows = sub,
      tableInstance = \<lparr>state = \<lparr>isTableResizing = VUndefined\<rparr>\<rparr>,
      expanderCell = VUndefined\<rparr>"

text \<open>
  A second environment whose renderer puts what it is given into its result: the element
  attributes, then the column id, value, depth and resize flag it reads from the bundle, then
  the content, with every node of the content written as a value.
\<close>

fun node_value :: "'f node \<Rightarrow> jsval" where
  "node_value (FragmentOf ns) = VArr (map node_value ns)"
| "node_value (Value v) = v"
| "node_value (SubRowExpander c d cp e) =
     VElem (Component ''SubRowExpander'') [(''isDisabled'', VBool d), (''expanderCell'', e)]"
| "node_value (DefaultCell rp) = VElem (Component ''DefaultCell'') (cellElementProps rp)"

definition describing_env :: "string table_env" where
  "describing_env =
     sample_env
       \<lparr>call_cellRenderer :=
          (\<lambda>f rp. VElem (Tag f)
             (cellElementProps rp
              @ [(''data-column'', VStr (column_id (cp_column (cellProps rp)))),
                 (''data-value'', cp_value (cellProps rp)),
                 (''data-depth'', VNum (depth (cp_row (cellProps rp)))),
                 (''data-cell-value'', cell_value (cp_cell (cellProps rp))),
                 (''data-resizing'', isTableResizing (state (cp_instance (cellProps rp)))),
                 (''children'', node_value (children rp))]))\<rparr>"

section \<open>Properties of HeaderButton\<close>

subsection \<open>Reading the assembled props\<close>

lemma getp_spread:
  "getp (spread a b) k = (case map_of b k of Some v \<Rightarrow> v | None \<Rightarrow> getp a k)"
  by (simp add: getp_def spread_def merge_conv' map_add_def split: option.splits)

lemma map_of_spread: "map_of (spread a b) = map_of a ++ map_of b"
  by (simp add: spread_def merge_conv')

lemma map_of_rest_without:
  "map_of (rest_without ks ob) k = (if k \<in> set ks then None else map_of ob k)"
  by (induction ob) (auto simp: rest_without_def)

lemma map_of_rest_of:
  "map_of (rest_of props) k =
     (if k \<in> set [''name'', ''description'', ''isActive'', ''className'', ''startIcon'',
        ''menuItems''] then None else map_of props k)"
  unfolding rest_of_def by (rule map_of_rest_without)

lemma buttonProps_menuItems:
  "getp (buttonProps ref props) ''menuItems'' =
     (if truthy (getp props ''menuItems'') then getp props ''menuItems'' else VUndefined)"
  by (simp add: buttonProps_def getp_spread map_of_rest_of) (simp add: getp_def)

lemma buttonProps_onClick:
  "getp (buttonProps ref props) ''onClick'' = getp props ''onClick''"
  by (simp add: buttonProps_def getp_spread map_of_rest_of split: option.splits)
     (simp add: getp_def)

lemma buttonProps_startIcon:
  "getp (buttonProps ref props) ''startIcon'' = startIcon_of props"
  by (simp add: buttonProps_def getp_spread map_of_rest_of split: option.splits)
     (simp add: getp_def)

lemma buttonProps_className:
  "getp (buttonProps ref props) ''className'' = className_of props"
  by (simp add: buttonProps_def getp_spread map_of_rest_of split: option.splits)
     (simp add: getp_def)

lemma buttonProps_rest:
  assumes "map_of (rest_of props) k = Some v"
  shows "getp (buttonProps ref props) k = v"
  using assms by (simp add: buttonProps_def getp_spread)

text \<open>The guards give the same answer on the assembled props as on the props received:
  \<open>rest\<close> never holds \<open>menuItems\<close>, and \<open>onClick\<close> reaches the assembled props through \<open>rest\<close>.\<close>

lemma isSplitButton_buttonProps: "isSplitButton (buttonProps ref props) = isSplitButton props"
  by (simp add: isSplitButton_def buttonProps_menuItems buttonProps_onClick)

lemma isDropdownButton_buttonProps:
  "isDropdownButton (buttonProps ref props) = isDropdownButton props"
  by (simp add: isDropdownButton_def buttonProps_menuItems)

subsection \<open>The variant\<close>

text \<open>
  C3. The classification is total and exclusive: for every props object the component returns
  an element of exactly one of the three primitives, carrying the assembled props. The split
  test (menu items and click handler both truthy) comes first, so props with both give
  \<open>SplitButton\<close>; menu items without a click handler give \<open>DropdownButton\<close>; everything else
  gives \<open>Button\<close>.
\<close>

theorem HeaderButton_variant:
  "HeaderButton ref props =
     jsx (Component
            (if truthy (getp props ''menuItems'') \<and> truthy (getp props ''onClick'')
             then ''SplitButton''
             else if truthy (getp props ''menuItems'') then ''DropdownButton''
             else ''Button''))
         (buttonProps ref props)
   \<and> (\<exists>!c. c \<in> {''SplitButton'', ''DropdownButton'', ''Button''}
          \<and> HeaderButton ref props = jsx (Component c) (buttonProps ref props))"
proof -
  define c0 where
    "c0 = (if truthy (getp props ''menuItems'') \<and> truthy (getp props ''onClick'')
           then ''SplitButton''
           else if truthy (getp props ''menuItems'') then ''DropdownButton''
           else ''Button'')"
  have eq: "HeaderButton ref props = jsx (Component c0) (buttonProps ref props)"
    unfolding c0_def
    by (simp add: HeaderButton_def Let_def isSplitButton_def isDropdownButton_def
        buttonProps_menuItems buttonProps_onClick)
  have mem: "c0 \<in> {''SplitButton'', ''DropdownButton'', ''Button''}"
    unfolding c0_def by (simp only: insert_iff split: if_split) blast
  have uniq: "\<exists>!c. c \<in> {''SplitButton'', ''DropdownButton'', ''Button''}
          \<and> HeaderButton ref props = jsx (Component c) (buttonProps ref props)"
  proof (rule ex1I [of _ c0])
    from mem eq
    show "c0 \<in> {''SplitButton'', ''DropdownButton'', ''Button''}
          \<and> HeaderButton ref props = jsx (Component c0) (buttonProps ref props)"
      by (rule conjI)
  next
    fix c
    assume "c \<in> {''SplitButton'', ''DropdownButton'', ''Button''}
          \<and> HeaderButton ref props = jsx (Component c) (buttonProps ref props)"
    then have "jsx (Component c) (buttonProps ref props)
               = jsx (Component c0) (buttonProps ref props)"
      using eq by simp
    then show "c = c0"
      by (simp only: jsx_def jsval.inject etype.inject)
  qed
  from eq uniq show ?thesis unfolding c0_def by (rule conjI)
qed

subsection \<open>An empty list of menu items\<close>

text \<open>An empty array is truthy. With \<open>menuItems = []\<close> and no click handler the field is
  forwarded and the element is a \<open>DropdownButton\<close>, not a \<open>Button\<close>.\<close>

theorem empty_menuItems_counterexample:
  "getp (buttonProps VNull [(''name'', VStr ''A''), (''menuItems'', VArr [])]) ''menuItems''
     = VArr []
   \<and> HeaderButton VNull [(''name'', VStr ''A''), (''menuItems'', VArr [])]
     = jsx (Component ''DropdownButton'')
         (buttonProps VNull [(''name'', VStr ''A''), (''menuItems'', VArr [])])
   \<and> HeaderButton VNull [(''name'', VStr ''A''), (''menuItems'', VArr [])]
     \<noteq> jsx (Component ''Button'')
         (buttonProps VNull [(''name'', VStr ''A''), (''menuItems'', VArr [])])"
  by (simp add: HeaderButton_def Let_def isSplitButton_def isDropdownButton_def
      buttonProps_menuItems buttonProps_onClick jsx_def)
     (simp add: getp_def)

text \<open>
  C4, as the code has it. A \<open>menuItems\<close> field that is an empty list is present all the same:
  it is forwarded to the primitive, and the variant is \<open>SplitButton\<close> with a click handler and
  \<open>DropdownButton\<close> without. Only a falsy field (absent, \<open>undefined\<close>, \<open>null\<close>) is left out of the
  assembled props, and then the variant is \<open>Button\<close>.
\<close>

theorem menuItems_presence:
  "(getp props ''menuItems'' = VArr [] \<longrightarrow>
      getp (buttonProps ref props) ''menuItems'' = VArr []
      \<and> HeaderButton ref props =
          jsx (Component (if truthy (getp props ''onClick'') then ''SplitButton''
                          else ''DropdownButton''))
              (buttonProps ref props))
   \<and> (\<not> truthy (getp props ''menuItems'') \<longrightarrow>
        map_of (buttonProps ref props) ''menuItems'' = None
        \<and> HeaderButton ref props = jsx (Component ''Button'') (buttonProps ref props))"
proof (intro conjI impI)
  assume e: "getp props ''menuItems'' = VArr []"
  show "getp (buttonProps ref props) ''menuItems'' = VArr []"
    by (simp add: buttonProps_menuItems e)
  show "HeaderButton ref props =
          jsx (Component (if truthy (getp props ''onClick'') then ''SplitButton''
                          else ''DropdownButton''))
              (buttonProps ref props)"
    by (simp add: HeaderButton_def Let_def isSplitButton_def isDropdownButton_def
        buttonProps_menuItems buttonProps_onClick e)
next
  assume f: "\<not> truthy (getp props ''menuItems'')"
  show "map_of (buttonProps ref props) ''menuItems'' = None"
    by (simp add: buttonProps_def map_of_spread map_add_def map_of_rest_of f)
  show "HeaderButton ref props = jsx (Component ''Button'') (buttonProps ref props)"
    by (simp add: HeaderButton_def Let_def isSplitButton_def isDropdownButton_def
        buttonProps_menuItems buttonProps_onClick f)
qed

theorem menuItems_presence_witness:
  "getp (buttonProps VNull [(''name'', VStr ''A''), (''menuItems'', VArr []),
          (''onClick'', VFun ''open'')]) ''menuItems'' = VArr []
   \<and> HeaderButton VNull [(''name'', VStr ''A''), (''menuItems'', VArr []),
          (''onClick'', VFun ''open'')]
     = jsx (Component ''SplitButton'')
         (buttonProps VNull [(''name'', VStr ''A''), (''menuItems'', VArr []),
          (''onClick'', VFun ''open'')])
   \<and> map_of (buttonProps VNull [(''name'', VStr ''A''), (''menuItems'', VNull)]) ''menuItems''
     = None
   \<and> HeaderButton VNull [(''name'', VStr ''A''), (''menuItems'', VNull)]
     = jsx (Component ''Button'')
         (buttonProps VNull [(''name'', VStr ''A''), (''menuItems'', VNull)])"
  using menuItems_presence [of "[(''name'', VStr ''A''), (''menuItems'', VArr []),
          (''onClick'', VFun ''open'')]" VNull]
    menuItems_presence [of "[(''name'', VStr ''A''), (''menuItems'', VNull)]" VNull]
  by (simp add: getp_def)

subsection \<open>The leading icon\<close>

text \<open>A leading icon that is not an element, here the string \<open>project.png\<close>, does not reach
  the assembled props: their \<open>startIcon\<close> is \<open>undefined\<close>.\<close>

theorem startIcon_not_element_counterexample:
  "getp [(''name'', VStr ''Project C''), (''startIcon'', VStr ''project.png'')] ''startIcon''
     = VStr ''project.png''
   \<and> getp (buttonProps VNull
              [(''name'', VStr ''Project C''), (''startIcon'', VStr ''project.png'')])
         ''startIcon'' = VUndefined"
  by (simp add: buttonProps_startIcon startIcon_of_def Let_def) (simp add: getp_def)

text \<open>
  C5, as the code has it. When the leading icon is a valid element, the assembled props carry a
  clone of it whose \<open>className\<close> is \<open>iui-header-button-icon\<close> followed by the class the icon
  already had (the sizing class alone when it had none), its other props unchanged. When the
  leading icon is not a valid element, the assembled \<open>startIcon\<close> is \<open>undefined\<close>: the value is
  dropped.
\<close>

theorem startIcon_assembled:
  "(getp props ''startIcon'' = VElem t ps \<longrightarrow>
      getp (buttonProps ref props) ''startIcon''
        = VElem t (spread ps [(''className'',
                     VStr (cx [VStr ''iui-header-button-icon'', getp ps ''className'']))])
      \<and> (getp ps ''className'' = VUndefined \<longrightarrow>
           cx [VStr ''iui-header-button-icon'', getp ps ''className'']
             = ''iui-header-button-icon'')
      \<and> (\<forall>c. getp ps ''className'' = VStr c \<and> c \<noteq> [] \<longrightarrow>
           cx [VStr ''iui-header-button-icon'', getp ps ''className'']
             = ''iui-header-button-icon '' @ c))
   \<and> (\<not> isValidElement (getp props ''startIcon'') \<longrightarrow>
        getp (buttonProps ref props) ''startIcon'' = VUndefined)"
  by (simp add: buttonProps_startIcon startIcon_of_def Let_def cx_def)

theorem startIcon_assembled_witness:
  "getp (buttonProps VNull
           [(''name'', VStr ''Project C''),
            (''startIcon'', VElem (Tag ''img'')
                              [(''src'', VStr ''project.png''), (''className'', VStr ''round'')])])
     ''startIcon''
   = VElem (Tag ''img'')
       [(''src'', VStr ''project.png''), (''className'', VStr ''iui-header-button-icon round'')]
   \<and> getp (buttonProps VNull
           [(''name'', VStr ''Project B''), (''startIcon'', VElem (Tag ''svg'') [])])
     ''startIcon''
   = VElem (Tag ''svg'') [(''className'', VStr ''iui-header-button-icon'')]
   \<and> getp (buttonProps VNull
           [(''name'', VStr ''Project C''), (''startIcon'', VStr ''project.png'')])
     ''startIcon'' = VUndefined"
  using startIcon_assembled [of "[(''name'', VStr ''Project C''),
            (''startIcon'', VElem (Tag ''img'')
                              [(''src'', VStr ''project.png''), (''className'', VStr ''round'')])]"
          "Tag ''img''" "[(''src'', VStr ''project.png''), (''className'', VStr ''round'')]" VNull]
    startIcon_assembled [of "[(''name'', VStr ''Project B''),
            (''startIcon'', VElem (Tag ''svg'') [])]" "Tag ''svg''" "[]" VNull]
    startIcon_assembled [of "[(''name'', VStr ''Project C''),
            (''startIcon'', VStr ''project.png'')]" "Tag ''img''" "[]" VNull]
  by (simp add: getp_def spread_def AList.merge_def cx_def)

subsection \<open>The pass-through attributes\<close>

text \<open>A \<open>children\<close> prop of the caller is part of \<open>rest\<close> and replaces the computed
  children.\<close>

theorem children_override_counterexample:
  "getp (buttonProps VNull [(''name'', VStr ''Project A''), (''children'', VStr ''mine'')])
     ''children'' = VStr ''mine''
   \<and> children_of [(''name'', VStr ''Project A''), (''children'', VStr ''mine'')]
     \<noteq> VStr ''mine''"
  by (simp add: buttonProps_def getp_spread map_of_rest_of children_of_def jsx_def)

text \<open>
  C6, as the code has it. Every prop of the caller other than \<open>name\<close>, \<open>description\<close>,
  \<open>isActive\<close>, \<open>className\<close>, \<open>startIcon\<close> and \<open>menuItems\<close> is a pass-through attribute, merged
  last: its value is the value of that field in the assembled props, whatever the component
  computed for the field, \<open>children\<close> included. The class name is never a pass-through
  attribute, and the assembled class name is always the composed one.
\<close>

theorem rest_merged_last:
  "(k \<notin> set [''name'', ''description'', ''isActive'', ''className'', ''startIcon'',
        ''menuItems''] \<and> map_of props k = Some v \<longrightarrow>
      getp (buttonProps ref props) k = v)
   \<and> map_of (rest_of props) ''className'' = None
   \<and> getp (buttonProps ref props) ''className'' = className_of props"
proof (intro conjI impI)
  assume a: "k \<notin> set [''name'', ''description'', ''isActive'', ''className'', ''startIcon'',
        ''menuItems''] \<and> map_of props k = Some v"
  then have "map_of (rest_of props) k = Some v"
    by (simp only: map_of_rest_of if_False)
  then show "getp (buttonProps ref props) k = v"
    by (rule buttonProps_rest)
next
  show "map_of (rest_of props) ''className'' = None"
    by (simp add: map_of_rest_of)
  show "getp (buttonProps ref props) ''className'' = className_of props"
    by (rule buttonProps_className)
qed

theorem rest_merged_last_witness:
  "getp (buttonProps VNull
           [(''name'', VStr ''Project A''), (''className'', VStr ''mine''),
            (''styleType'', VStr ''cta''), (''children'', VStr ''other'')]) ''styleType''
     = VStr ''cta''
   \<and> getp (buttonProps VNull
           [(''name'', VStr ''Project A''), (''className'', VStr ''mine''),
            (''styleType'', VStr ''cta''), (''children'', VStr ''other'')]) ''children''
     = VStr ''other''
   \<and> getp (buttonProps VNull
           [(''name'', VStr ''Project A''), (''className'', VStr ''mine''),
            (''styleType'', VStr ''cta''), (''children'', VStr ''other'')]) ''className''
     = VStr ''iui-header-button mine''"
  using rest_merged_last [of "''styleType''" "[(''name'', VStr ''Project A''),
            (''className'', VStr ''mine''), (''styleType'', VStr ''cta''),
            (''children'', VStr ''other'')]" "VStr ''cta''" VNull]
    rest_merged_last [of "''children''" "[(''name'', VStr ''Project A''),
            (''className'', VStr ''mine''), (''styleType'', VStr ''cta''),
            (''children'', VStr ''other'')]" "VStr ''other''" VNull]
  by (simp add: className_of_def isSplitButton_def isActive_of_def getp_def cx_def)

subsection \<open>The scenario of the documentation\<close>

text \<open>
  C7. With \<open>name = "Project A"\<close>, \<open>description = "0n00434"\<close>, two menu items and no click handler
  the component returns a \<open>DropdownButton\<close> whose children are a fragment of a \<open>div\<close> holding
  \<open>Project A\<close> and a \<open>div\<close> of class \<open>iui-description\<close> holding \<open>0n00434\<close>; its class is
  \<open>iui-header-button\<close> without \<open>iui-active\<close> and its \<open>aria-current\<close> is \<open>undefined\<close>. With
  \<open>isActive = true\<close> added, the class gains \<open>iui-active\<close> and \<open>aria-current\<close> is \<open>location\<close>.
\<close>

theorem HeaderButton_scenario:
  "HeaderButton ref
     [(''name'', VStr ''Project A''), (''description'', VStr ''0n00434''),
      (''menuItems'', VArr [item1, item2])]
   = VElem (Component ''DropdownButton'')
      [(''startIcon'', VUndefined), (''styleType'', VStr ''borderless''),
       (''className'', VStr ''iui-header-button''),
       (''aria-current'', VUndefined),
       (''children'',
        VElem Fragment
         [(''children'',
           VArr [VElem (Tag ''div'') [(''children'', VStr ''Project A'')],
                 VElem (Tag ''div'')
                   [(''className'', VStr ''iui-description''),
                    (''children'', VStr ''0n00434'')]])]),
       (''ref'', ref),
       (''menuItems'', VArr [item1, item2])]
   \<and> HeaderButton ref
     [(''name'', VStr ''Project A''), (''description'', VStr ''0n00434''),
      (''menuItems'', VArr [item1, item2]), (''isActive'', VBool True)]
   = VElem (Component ''DropdownButton'')
      [(''startIcon'', VUndefined), (''styleType'', VStr ''borderless''),
       (''className'', VStr ''iui-header-button iui-active''),
       (''aria-current'', VStr ''location''),
       (''children'',
        VElem Fragment
         [(''children'',
           VArr [VElem (Tag ''div'') [(''children'', VStr ''Project A'')],
                 VElem (Tag ''div'')
                   [(''className'', VStr ''iui-description''),
                    (''children'', VStr ''0n00434'')]])]),
       (''ref'', ref),
       (''menuItems'', VArr [item1, item2])]"
  by (simp add: HeaderButton_def buttonProps_def Let_def isSplitButton_def isDropdownButton_def
      getp_def spread_def AList.merge_def rest_of_def rest_without_def startIcon_of_def
      className_of_def children_of_def isActive_of_def cx_def jsx_def js_and_def)

section \<open>Properties of TableCell\<close>

subsection \<open>\<open>findIndex\<close> finds the first match\<close>

lemma findIndex_from_none:
  "(\<forall>x \<in> set xs. \<not> P x) \<Longrightarrow> findIndex_from k P xs = - 1"
  by (induction xs arbitrary: k) auto

lemma findIndex_from_range:
  "0 \<le> k \<Longrightarrow> findIndex_from k P xs = - 1 \<or> k \<le> findIndex_from k P xs"
proof (induction xs arbitrary: k)
  case Nil
  then show ?case by simp
next
  case (Cons x xs)
  from Cons.IH [of "k + 1"] Cons.prems show ?case by auto
qed

lemma findIndex_from_first:
  "0 \<le> k \<Longrightarrow>
   findIndex_from k P xs = k + int i \<longleftrightarrow>
     i < length xs \<and> P (xs ! i) \<and> (\<forall>j<i. \<not> P (xs ! j))"
proof (induction xs arbitrary: k i)
  case Nil
  then show ?case by simp
next
  case (Cons x xs)
  show ?case
  proof (cases "P x")
    case True
    then show ?thesis by (cases i) auto
  next
    case False
    show ?thesis
    proof (cases i)
      case 0
      with False findIndex_from_range [of "k + 1" P xs] Cons.prems show ?thesis by auto
    next
      case (Suc n)
      have "findIndex_from (k + 1) P xs = k + (1 + int n) \<longleftrightarrow>
              n < length xs \<and> P (xs ! n) \<and> (\<forall>j<n. \<not> P (xs ! j))"
        using Cons.IH [of "k + 1" n] Cons.prems by (simp add: add.assoc)
      moreover have "(\<forall>j<Suc n. \<not> P ((x # xs) ! j)) \<longleftrightarrow> (\<forall>j<n. \<not> P (xs ! j))"
        using False by (auto simp: less_Suc_eq_0_disj)
      ultimately show ?thesis using False Suc by simp
    qed
  qed
qed

lemma findIndex_first:
  "findIndex P xs = int i \<longleftrightarrow> i < length xs \<and> P (xs ! i) \<and> (\<forall>j<i. \<not> P (xs ! j))"
  using findIndex_from_first [of 0 P xs i] by (simp add: findIndex_def)

lemma findIndex_none: "(\<forall>x \<in> set xs. \<not> P x) \<Longrightarrow> findIndex P xs = - 1"
  by (simp add: findIndex_def findIndex_from_none)

subsection \<open>The indentation of nested rows\<close>

text \<open>
  C1. When the table has no sub-rows, or the cell is not the expansion anchor,
  \<open>getSubRowStyle\<close> gives nothing and the style of the cell is the base style alone, whatever
  the depth of the row. Otherwise the style has \<open>paddingLeft = 16 + (depth + (canExpand ? 0 : 1))
  * 35\<close>: \<open>16 + depth * 35\<close> on a row that can expand and \<open>16 + (depth + 1) * 35\<close> on one that
  cannot.
\<close>

theorem subRow_padding:
  "(\<not> tableHasSubRows props \<or> \<not> hasSubRowExpander env props \<longrightarrow>
      getSubRowStyle env props = None
      \<and> cellStyle env props =
          spread_opt []
            (getCellStyle env (column (cell props))
               (truthy (isTableResizing (state (tableInstance props))))))
   \<and> (tableHasSubRows props \<and> hasSubRowExpander env props \<longrightarrow>
        getSubRowStyle env props =
          Some [(''paddingLeft'',
                 VNum (16 + (depth (row (cell props))
                             + (if canExpand (row (cell props)) then 0 else 1)) * 35))]
        \<and> getp (cellStyle env props) ''paddingLeft'' =
            VNum (16 + (depth (row (cell props))
                        + (if canExpand (row (cell props)) then 0 else 1)) * 35)
        \<and> (canExpand (row (cell props)) \<longrightarrow>
             getp (cellStyle env props) ''paddingLeft'' =
               VNum (16 + depth (row (cell props)) * 35))
        \<and> (\<not> canExpand (row (cell props)) \<longrightarrow>
             getp (cellStyle env props) ''paddingLeft'' =
               VNum (16 + (depth (row (cell props)) + 1) * 35)))"
  by (simp add: getSubRowStyle_def cellStyle_def getp_spread)

theorem subRow_padding_witness:
  "getp (cellStyle sample_env
           (sample_props [selection_column, name_column None] 1 2 False True)) ''paddingLeft''
     = VNum 121
   \<and> getp (cellStyle sample_env
           (sample_props [selection_column, name_column None] 1 2 True True)) ''paddingLeft''
     = VNum 86
   \<and> cellStyle sample_env (sample_props [selection_column, name_column None] 1 2 True False)
     = [(''flex'', VStr ''1 1 145px'')]
   \<and> cellStyle sample_env (sample_props [selection_column, name_column None] 0 2 True True)
     = [(''flex'', VStr ''1 1 145px'')]"
  using subRow_padding [of "sample_props [selection_column, name_column None] 1 2 False True"
          sample_env]
    subRow_padding [of "sample_props [selection_column, name_column None] 1 2 True True"
          sample_env]
    subRow_padding [of "sample_props [selection_column, name_column None] 1 2 True False"
          sample_env]
    subRow_padding [of "sample_props [selection_column, name_column None] 0 2 True True"
          sample_env]
  by (simp add: hasSubRowExpander_def findIndex_def sample_props_def sample_row_def
      sample_env_def selection_column_def name_column_def spread_def AList.merge_def)

subsection \<open>The expansion anchor\<close>

text \<open>
  C2. For a cell at the zero-based position \<open>i\<close> and any list of cells of its row,
  \<open>hasSubRowExpander\<close> holds exactly when \<open>i\<close> is the index of the first cell of the row whose
  column id is not the selection-column id: the cell at \<open>i\<close> is not a selection cell and every
  cell before it is one.
\<close>

theorem hasSubRowExpander_first_non_selection:
  "cellIndex props = int i \<Longrightarrow>
   hasSubRowExpander env props \<longleftrightarrow>
     i < length (cells (row (cell props)))
     \<and> column_id (column (cells (row (cell props)) ! i)) \<noteq> SELECTION_CELL_ID env
     \<and> (\<forall>j<i. column_id (column (cells (row (cell props)) ! j)) = SELECTION_CELL_ID env)"
proof -
  assume i: "cellIndex props = int i"
  have "hasSubRowExpander env props \<longleftrightarrow>
          findIndex (\<lambda>c. column_id (column c) \<noteq> SELECTION_CELL_ID env)
            (cells (row (cell props))) = int i"
    unfolding hasSubRowExpander_def i by (rule eq_commute)
  then show ?thesis
    unfolding findIndex_first by simp
qed

theorem hasSubRowExpander_first_non_selection_witness:
  "hasSubRowExpander sample_env (sample_props [selection_column, name_column None] 1 0 False True)
   \<and> \<not> hasSubRowExpander sample_env
         (sample_props [selection_column, name_column None] 0 0 False True)
   \<and> \<not> hasSubRowExpander sample_env
         (sample_props [name_column None, name_column None] 1 0 False True)"
  using hasSubRowExpander_first_non_selection
      [of "sample_props [selection_column, name_column None] 1 0 False True" 1 sample_env]
    hasSubRowExpander_first_non_selection
      [of "sample_props [selection_column, name_column None] 0 0 False True" 0 sample_env]
    hasSubRowExpander_first_non_selection
      [of "sample_props [name_column None, name_column None] 1 0 False True" 1 sample_env]
  by (simp add: sample_props_def sample_row_def sample_env_def selection_column_def
      name_column_def)

subsection \<open>Custom and default rendering\<close>

text \<open>
  C8. The component hands three inputs to the renderer. The element attributes are what
  \<open>cell.getCellProps\<close> returns on the class \<open>iui-cell\<close> merged with the column's class and on the
  base style merged with the indentation. The bundle is the table instance with the cell, its
  row, its value and its column. The content is the fragment of the expansion control (on the
  anchor cell of an expandable row of a table with sub-rows; \<open>false\<close> otherwise) and the rendered
  cell. When the column of the cell has a renderer, the component returns the fragment whose
  one child is what that renderer returns on these three inputs, unchanged. When the column
  has none, the one child is the \<open>DefaultCell\<close> element given exactly the same three inputs.
\<close>

theorem TableCell_renderer_dispatch:
  "(let anchor =
          (cellIndex props =
             findIndex (\<lambda>c. column_id (column c) \<noteq> SELECTION_CELL_ID env)
               (cells (row (cell props))));
        attributes =
          getCellProps env (cell props)
            [(''className'', VStr (cx [VStr ''iui-cell'', cellClassName (column (cell props))])),
             (''style'',
              VObj (spread_opt
                      (spread_opt []
                         (getCellStyle env (column (cell props))
                            (truthy (isTableResizing (state (tableInstance props))))))
                      (if tableHasSubRows props \<and> anchor
                       then Some [(''paddingLeft'',
                                   VNum (16 + (depth (row (cell props))
                                               + (if canExpand (row (cell props)) then 0 else 1))
                                              * 35))]
                       else None)))];
        bundle =
          \<lparr>cp_instance = tableInstance props, cp_cell = cell props, cp_row = row (cell props),
           cp_value = cell_value (cell props), cp_column = column (cell props)\<rparr>;
        content =
          FragmentOf
            [if tableHasSubRows props \<and> anchor \<and> canExpand (row (cell props))
             then SubRowExpander (cell props) (isDisabled props) bundle (expanderCell props)
             else Value (VBool False),
             Value (render_Cell env (cell props))]
    in (\<forall>f. cellRenderer (column (cell props)) = Some f \<longrightarrow>
          TableCell env props =
            FragmentOf
              [Value (call_cellRenderer env f (CellRendererProps attributes bundle content))])
       \<and> (cellRenderer (column (cell props)) = None \<longrightarrow>
            TableCell env props =
              FragmentOf [DefaultCell (CellRendererProps attributes bundle content)]))"
  by (simp add: TableCell_def cellRendererProps_of_def cellElementProps_of_def cellProps_of_def
      cellContent_def cellStyle_def getSubRowStyle_def hasSubRowExpander_def Let_def)

theorem TableCell_renderer_dispatch_witness:
  "TableCell describing_env
     (sample_props [selection_column, name_column (Some ''td'')] 1 2 True True)
     = FragmentOf
         [Value (VElem (Tag ''td'')
            [(''role'', VStr ''cell''), (''className'', VStr ''iui-cell''),
             (''style'', VObj [(''flex'', VStr ''1 1 145px''), (''paddingLeft'', VNum 86)]),
             (''data-column'', VStr ''name''), (''data-value'', VStr ''Alice''),
             (''data-depth'', VNum 2), (''data-cell-value'', VStr ''Alice''),
             (''data-resizing'', VUndefined),
             (''children'',
              VArr [VElem (Component ''SubRowExpander'')
                      [(''isDisabled'', VBool False), (''expanderCell'', VUndefined)],
                    VStr ''Alice''])])]
   \<and> TableCell describing_env (sample_props [selection_column, name_column None] 1 2 True True)
     = FragmentOf
         [DefaultCell
            (CellRendererProps
               [(''role'', VStr ''cell''), (''className'', VStr ''iui-cell''),
                (''style'', VObj [(''flex'', VStr ''1 1 145px''), (''paddingLeft'', VNum 86)])]
               \<lparr>cp_instance = \<lparr>state = \<lparr>isTableResizing = VUndefined\<rparr>\<rparr>,
                cp_cell = Cell (name_column None)
                            (sample_row [selection_column, name_column None] 2 True)
                            (VStr ''Alice''),
                cp_row = sample_row [selection_column, name_column None] 2 True,
                cp_value = VStr ''Alice'',
                cp_column = name_column None\<rparr>
               (FragmentOf
                  [SubRowExpander
                     (Cell (name_column None)
                        (sample_row [selection_column, name_column None] 2 True)
                        (VStr ''Alice''))
                     False
                     \<lparr>cp_instance = \<lparr>state = \<lparr>isTableResizing = VUndefined\<rparr>\<rparr>,
                      cp_cell = Cell (name_column None)
                                  (sample_row [selection_column, name_column None] 2 True)
                                  (VStr ''Alice''),
                      cp_row = sample_row [selection_column, name_column None] 2 True,
                      cp_value = VStr ''Alice'',
                      cp_column = name_column None\<rparr>
                     VUndefined,
                   Value (VStr ''Alice'')]))]
   \<and> TableCell describing_env (sample_props [selection_column, name_column None] 0 2 True True)
     = FragmentOf
         [DefaultCell
            (CellRendererProps
               [(''role'', VStr ''cell''), (''className'', VStr ''iui-cell''),
                (''style'', VObj [(''flex'', VStr ''1 1 145px'')])]
               \<lparr>cp_instance = \<lparr>state = \<lparr>isTableResizing = VUndefined\<rparr>\<rparr>,
                cp_cell = Cell selection_column
                            (sample_row [selection_column, name_column None] 2 True)
                            (VStr ''Alice''),
                cp_row = sample_row [selection_column, name_column None] 2 True,
                cp_value = VStr ''Alice'',
                cp_column = selection_column\<rparr>
               (FragmentOf [Value (VBool False), Value (VStr ''Alice'')]))]"
  using TableCell_renderer_dispatch
      [of "sample_props [selection_column, name_column (Some ''td'')] 1 2 True True"
          describing_env]
    TableCell_renderer_dispatch
      [of "sample_props [selection_column, name_column None] 1 2 True True" describing_env]
    TableCell_renderer_dispatch
      [of "sample_props [selection_column, name_column None] 0 2 True True" describing_env]
  by (simp add: Let_def findIndex_def describing_env_def sample_props_def sample_row_def
      sample_env_def selection_column_def name_column_def spread_def AList.merge_def cx_def)

subsection \<open>Rendering leaves the store as it is\<close>

text \<open>Over functions that do not touch the store, the component over the store returns what
  the component returns, and the store it was given.\<close>

lemma TableCell_st_lift:
  "TableCell_st (lift_env env) props (store_of props) = (TableCell env props, store_of props)"
  by (auto simp: TableCell_st_def lift_env_def store_of_def TableCell_def cellRendererProps_of_def
      cellElementProps_of_def cellContent_def cellProps_of_def cellStyle_def getSubRowStyle_def
      hasSubRowExpander_def Let_def split: option.splits)

text \<open>
  C9. The component writes to none of its inputs: when the functions it calls (\<open>getCellStyle\<close>,
  \<open>cell.getCellProps\<close>, \<open>cell.render\<close>, the column's renderer) leave the store as they find it,
  the store after rendering is the store before it, with the cell, its row and the table
  instance as they were; and nothing is kept from one call to the next: rendering again from
  the store the first call left gives the same result.
\<close>

theorem TableCell_frame:
  assumes "\<forall>c r s. snd (getCellStyle_st env c r s) = s"
    and "\<forall>ob s. snd (getCellProps_st env ob s) = s"
    and "\<forall>s. snd (render_Cell_st env s) = s"
    and "\<forall>f rp s. snd (call_cellRenderer_st env f rp s) = s"
  shows "snd (TableCell_st env props s) = s
     \<and> TableCell_st env props (snd (TableCell_st env props s)) = TableCell_st env props s"
proof -
  have "snd (TableCell_st env props s) = s"
    using assms by (simp add: TableCell_st_def Let_def split_beta split: option.splits)
  then show ?thesis by simp
qed

theorem TableCell_frame_witness:
  "snd (TableCell_st (lift_env sample_env)
          (sample_props [selection_column, name_column (Some ''td'')] 1 2 True True)
          (store_of (sample_props [selection_column, name_column (Some ''td'')] 1 2 True True)))
     = store_of (sample_props [selection_column, name_column (Some ''td'')] 1 2 True True)
   \<and> TableCell_st (lift_env sample_env)
        (sample_props [selection_column, name_column (Some ''td'')] 1 2 True True)
        (snd (TableCell_st (lift_env sample_env)
          (sample_props [selection_column, name_column (Some ''td'')] 1 2 True True)
          (store_of (sample_props [selection_column, name_column (Some ''td'')] 1 2 True True))))
     = (TableCell sample_env
          (sample_props [selection_column, name_column (Some ''td'')] 1 2 True True),
        store_of (sample_props [selection_column, name_column (Some ''td'')] 1 2 True True))"
  using TableCell_frame [of "lift_env sample_env"
      "sample_props [selection_column, name_column (Some ''td'')] 1 2 True True"
      "store_of (sample_props [selection_column, name_column (Some ''td'')] 1 2 True True)"]
    TableCell_st_lift [of sample_env
      "sample_props [selection_column, name_column (Some ''td'')] 1 2 True True"]
  by (simp add: lift_env_def)

subsection \<open>A row of selection cells only\<close>

text \<open>
  C10. In a row whose cells all belong to the selection column, \<open>findIndex\<close> finds nothing and
  returns \<open>-1\<close>, which is no zero-based position: no cell of the row is the expansion anchor,
  its style is the base style with no indentation, and its content holds no expansion
  control, only the \<open>false\<close> of the short-circuited condition and the rendered cell.
\<close>

theorem all_selection_no_anchor:
  assumes "\<forall>c \<in> set (cells (row (cell props))).
             column_id (column c) = SELECTION_CELL_ID env"
    and "0 \<le> cellIndex props"
  shows "findIndex (\<lambda>c. column_id (column c) \<noteq> SELECTION_CELL_ID env)
           (cells (row (cell props))) = - 1
     \<and> \<not> hasSubRowExpander env props
     \<and> getSubRowStyle env props = None
     \<and> cellStyle env props =
         spread_opt []
           (getCellStyle env (column (cell props))
              (truthy (isTableResizing (state (tableInstance props)))))
     \<and> cellContent env props =
         FragmentOf [Value (VBool False), Value (render_Cell env (cell props))]"
proof -
  have none: "findIndex (\<lambda>c. column_id (column c) \<noteq> SELECTION_CELL_ID env)
           (cells (row (cell props))) = - 1"
    using assms(1) by (intro findIndex_none) simp
  with assms(2) have anchor: "\<not> hasSubRowExpander env props"
    by (simp add: hasSubRowExpander_def)
  from none anchor show ?thesis
    by (simp add: getSubRowStyle_def cellStyle_def cellContent_def)
qed

theorem all_selection_no_anchor_witness:
  "findIndex (\<lambda>c. column_id (column c) \<noteq> SELECTION_CELL_ID sample_env)
     (cells (row (cell (sample_props [selection_column, selection_column] 1 2 True True)))) = - 1
   \<and> \<not> hasSubRowExpander sample_env
         (sample_props [selection_column, selection_column] 1 2 True True)
   \<and> cellStyle sample_env (sample_props [selection_column, selection_column] 1 2 True True)
       = [(''flex'', VStr ''1 1 145px'')]
   \<and> cellContent sample_env (sample_props [selection_column, selection_column] 1 2 True True)
       = FragmentOf [Value (VBool False), Value (VStr ''Alice'')]"
  using all_selection_no_anchor
      [of "sample_props [selection_column, selection_column] 1 2 True True" sample_env]
  by (simp add: sample_props_def sample_row_def sample_env_def selection_column_def
      spread_def AList.merge_def)

end
